theory Spec2Isabelle
  imports Main
begin

section \<open>The cryptocurrency tracker script (rastreador.py)\<close>

text \<open>
  The script is one straight line of statements: a title, a select box, one HTTP GET, the
  status code, and then either the shaped price table (chart and tail) or an error banner.
  The three libraries it calls are modelled by the values they hand back to the script:
  an exception is a value of \<open>py_error\<close>, a rendered widget is an element of the
  screen, and the network and the user are fields of an environment.
\<close>

subsection \<open>Exceptions\<close>

datatype py_error =
    ConnectionError
  | JSONDecodeError
  | KeyError string
  | NameError string
  | ValueError
  | OutOfBoundsDatetime int
  | StreamlitAPIException

subsection \<open>The request and the response\<close>

text \<open>The values of the \<open>params\<close> dictionary: \<open>"usd"\<close> is a string, \<open>7\<close> an integer.\<close>

datatype param_value = PStr string | PInt int

record request =
  req_url :: string
  req_params :: "(string \<times> param_value) list"

text \<open>
  A price point is the pair \<open>[timestamp_ms, price]\<close>; the price is a number whose
  arithmetic the script never touches, so its type is left open. The parsed body is a
  dictionary from field names to series of price points (\<open>prices\<close>,
  \<open>market_caps\<close>, \<open>total_volumes\<close>). \<open>response.json()\<close> raises when the body
  is not JSON.
\<close>

type_synonym 'p payload = "string \<rightharpoonup> (int \<times> 'p) list"

record 'p response =
  status_code :: int
  json :: "py_error + 'p payload"

subsection \<open>Data frames\<close>

text \<open>
  A pandas timestamp is a count of nanoseconds since the epoch held in 64 bits; the
  smallest 64-bit value is reserved for NaT.
\<close>

datatype timestamp = Timestamp (value_ns: int)

datatype 'p cell = Int_cell int | Datetime_cell timestamp | Value_cell 'p

datatype 'p index = RangeIndex nat nat | Index string "'p cell list"

record 'p dataframe =
  df_index :: "'p index"
  df_columns :: "(string \<times> 'p cell list) list"

definition nrows :: "'p dataframe \<Rightarrow> nat" where
  "nrows df = (case df_index df of RangeIndex start stop \<Rightarrow> stop - start | Index _ vs \<Rightarrow> length vs)"

text \<open>
  \<open>pd.DataFrame(data, columns=[c1, c2])\<close> on a list of two-element rows: one column per
  name, the default range index. Another number of names does not fit two-element rows
  (the script passes two).
\<close>

definition DataFrame :: "(int \<times> 'p) list \<Rightarrow> string list \<Rightarrow> py_error + 'p dataframe" where
  "DataFrame data cols =
     (case cols of
        [c1, c2] \<Rightarrow>
          Inr \<lparr>df_index = RangeIndex 0 (length data),
               df_columns = [(c1, map (\<lambda>row. Int_cell (fst row)) data), (c2, map (\<lambda>row. Value_cell (snd row)) data)]\<rparr>
      | _ \<Rightarrow> Inl ValueError)"

text \<open>\<open>df[name]\<close>: the column, or KeyError.\<close>

definition getitem :: "'p dataframe \<Rightarrow> string \<Rightarrow> py_error + 'p cell list" where
  "getitem df name = (case map_of (df_columns df) name of None \<Rightarrow> Inl (KeyError name) | Some col \<Rightarrow> Inr col)"

text \<open>\<open>df[name] = col\<close>: an existing column is replaced where it stands, a new one is appended.\<close>

definition setitem :: "'p dataframe \<Rightarrow> string \<Rightarrow> 'p cell list \<Rightarrow> 'p dataframe" where
  "setitem df name col =
     (if name \<in> fst ` set (df_columns df)
      then df\<lparr>df_columns := map (\<lambda>(k, v). if k = name then (k, col) else (k, v)) (df_columns df)\<rparr>
      else df\<lparr>df_columns := df_columns df @ [(name, col)]\<rparr>)"

text \<open>
  \<open>pd.to_datetime(..., unit="ms")\<close>: an integer is a count of milliseconds, stored as
  nanoseconds; a count whose nanoseconds do not fit 64 bits raises. A value that is a
  timestamp already stays. How pandas reads a number that is not an integer is a
  parameter (\<open>other\<close>): the script's timestamp column never holds one.
\<close>

definition ns_max :: int where
  "ns_max = 9223372036854775807"

definition in_bounds :: "int \<Rightarrow> bool" where
  "in_bounds ms = (- ns_max \<le> ms * 1000000 \<and> ms * 1000000 \<le> ns_max)"

definition to_datetime_ms :: "int \<Rightarrow> py_error + timestamp" where
  "to_datetime_ms ms = (if in_bounds ms then Inr (Timestamp (ms * 1000000)) else Inl (OutOfBoundsDatetime ms))"

fun to_datetime_cell :: "('p \<Rightarrow> py_error + timestamp) \<Rightarrow> 'p cell \<Rightarrow> py_error + 'p cell" where
  "to_datetime_cell other (Int_cell ms) = map_sum id Datetime_cell (to_datetime_ms ms)"
| "to_datetime_cell other (Datetime_cell t) = Inr (Datetime_cell t)"
| "to_datetime_cell other (Value_cell v) = map_sum id Datetime_cell (other v)"

fun to_datetime :: "('p \<Rightarrow> py_error + timestamp) \<Rightarrow> 'p cell list \<Rightarrow> py_error + 'p cell list" where
  "to_datetime other [] = Inr []"
| "to_datetime other (c # cs) =
     (case to_datetime_cell other c of
        Inl e \<Rightarrow> Inl e
      | Inr d \<Rightarrow> (case to_datetime other cs of Inl e \<Rightarrow> Inl e | Inr ds \<Rightarrow> Inr (d # ds)))"

text \<open>The way back, \<open>Timestamp.value // 10**6\<close>: the milliseconds a timestamp stands for.\<close>

definition to_epoch_ms :: "timestamp \<Rightarrow> int" where
  "to_epoch_ms t = value_ns t div 1000000"

text \<open>
  \<open>df.set_index(name, inplace=True)\<close>: the column becomes the index and is dropped from
  the columns; the rows keep their order.
\<close>

definition set_index :: "'p dataframe \<Rightarrow> string \<Rightarrow> py_error + 'p dataframe" where
  "set_index df name =
     (case map_of (df_columns df) name of
        None \<Rightarrow> Inl (KeyError name)
      | Some col \<Rightarrow> Inr \<lparr>df_index = Index name col, df_columns = filter (\<lambda>(k, v). k \<noteq> name) (df_columns df)\<rparr>)"

text \<open>\<open>df.tail(n)\<close>: the last \<open>n\<close> rows by position, all of them when there are fewer.\<close>

definition last_rows :: "nat \<Rightarrow> 'a list \<Rightarrow> 'a list" where
  "last_rows n xs = drop (length xs - n) xs"

definition tail :: "'p dataframe \<Rightarrow> nat \<Rightarrow> 'p dataframe" where
  "tail df n =
     \<lparr>df_index =
        (case df_index df of
           RangeIndex start stop \<Rightarrow> RangeIndex (max start (stop - n)) stop
         | Index name vs \<Rightarrow> Index name (last_rows n vs)),
      df_columns = map (\<lambda>(k, v). (k, last_rows n v)) (df_columns df)\<rparr>"

subsection \<open>The screen\<close>

datatype 'p written = W_str string | W_int int | W_frame "'p dataframe"

datatype 'p element =
    Title string
  | Selectbox string "string list" string
  | Write "'p written list"
  | Line_chart "'p dataframe"
  | Error string

text \<open>
  \<open>st.selectbox(label, options)\<close>: the widget state is the position the user picked,
  \<open>None\<close> before any interaction, when the preselected position \<open>index=0\<close> counts.
  A position outside the options is refused (the script passes three options).
\<close>

definition selectbox :: "string \<Rightarrow> string list \<Rightarrow> nat option \<Rightarrow> py_error + string" where
  "selectbox label opts picked =
     (let index = (case picked of None \<Rightarrow> 0 | Some i \<Rightarrow> i)
      in if index < length opts then Inr (opts ! index) else Inl StreamlitAPIException)"

subsection \<open>The script\<close>

text \<open>What the script does not decide: the user's pick, the network, the library's reading of other numbers.\<close>

record 'p env =
  selection :: "nat option"
  http_get :: "request \<Rightarrow> py_error + 'p response"
  other_to_datetime :: "'p \<Rightarrow> py_error + timestamp"

record 'p outcome =
  screen :: "'p element list"
  requests_sent :: "request list"
  fault :: "py_error option"

definition title_text :: string where
  "title_text = [CHR 0xF0, CHR 0x9F, CHR 0x92, CHR 0xB9] @ '' Rastreador de Criptomoedas''"

definition select_label :: string where
  "select_label = ''Selecione a Criptomoeda:''"

definition currency_options :: "string list" where
  "currency_options = [''bitcoin'', ''ethereum'', ''dogecoin'']"

definition url_of :: "string \<Rightarrow> string" where
  "url_of moeda = ''https://api.coingecko.com/api/v3/coins/'' @ moeda @ ''/market_chart''"

definition params :: "(string \<times> param_value) list" where
  "params = [(''vs_currency'', PStr ''usd''), (''days'', PInt 7)]"

text \<open>Lines 17 to 20: from the response to the table indexed by time.\<close>

definition shape :: "('p \<Rightarrow> py_error + timestamp) \<Rightarrow> 'p response \<Rightarrow> py_error + 'p dataframe" where
  "shape other response =
     (case json response of
        Inl e \<Rightarrow> Inl e
      | Inr dados \<Rightarrow>
          (case dados ''prices'' of
             None \<Rightarrow> Inl (KeyError ''prices'')
           | Some prices \<Rightarrow>
               (case DataFrame prices [''timestamp'', ''price''] of
                  Inl e \<Rightarrow> Inl e
                | Inr df \<Rightarrow>
                    (case getitem df ''timestamp'' of
                       Inl e \<Rightarrow> Inl e
                     | Inr col \<Rightarrow>
                         (case to_datetime other col of
                            Inl e \<Rightarrow> Inl e
                          | Inr stamps \<Rightarrow> set_index (setitem df ''timestamp'' stamps) ''timestamp'')))))"

definition run :: "'p env \<Rightarrow> 'p outcome" where
  "run env =
     (let s0 = [Title title_text] in
      case selectbox select_label currency_options (selection env) of
        Inl e \<Rightarrow> \<lparr>screen = s0, requests_sent = [], fault = Some e\<rparr>
      | Inr moeda \<Rightarrow>
          (let s1 = s0 @ [Selectbox select_label currency_options moeda];
               req = \<lparr>req_url = url_of moeda, req_params = params\<rparr>
           in case http_get env req of
                Inl e \<Rightarrow> \<lparr>screen = s1, requests_sent = [req], fault = Some e\<rparr>
              | Inr response \<Rightarrow>
                  (let s2 = s1 @ [Write [W_str ''Status code:'', W_int (status_code response)]]
                   in if status_code response = 200
                      then (case shape (other_to_datetime env) response of
                              Inl e \<Rightarrow> \<lparr>screen = s2, requests_sent = [req], fault = Some e\<rparr>
                            | Inr df \<Rightarrow>
                                \<lparr>screen = s2 @ [Line_chart df, Write [W_frame (tail df 5)]],
                                 requests_sent = [req], fault = None\<rparr>)
                      else \<lparr>screen = s2 @ [Error ''Erro ao buscar dados da API''],
                            requests_sent = [req], fault = None\<rparr>)))"

subsection \<open>The shaping step on the script's variables\<close>

text \<open>
  Lines 17 to 20 once more, as the statements they are: each reads and assigns the
  variables \<open>response\<close>, \<open>dados\<close> and \<open>df\<close>, and an exception leaves the
  variables as the statements before it left them. Line 18 binds \<open>df\<close> to a new frame;
  lines 19 and 20 change the frame bound to \<open>df\<close> in place. A variable that is not
  bound yet raises NameError.
\<close>

record 'p vars =
  v_response :: "'p response"
  v_dados :: "'p payload option"
  v_df :: "'p dataframe option"

type_synonym 'p stmt = "'p vars \<Rightarrow> 'p vars \<times> py_error option"

definition line_17 :: "'p stmt" where
  "line_17 s =
     (case json (v_response s) of
        Inl e \<Rightarrow> (s, Some e)
      | Inr parsed \<Rightarrow> (s\<lparr>v_dados := Some parsed\<rparr>, None))"

definition line_18 :: "'p stmt" where
  "line_18 s =
     (case v_dados s of
        None \<Rightarrow> (s, Some (NameError ''dados''))
      | Some dados \<Rightarrow>
          (case dados ''prices'' of
             None \<Rightarrow> (s, Some (KeyError ''prices''))
           | Some prices \<Rightarrow>
               (case DataFrame prices [''timestamp'', ''price''] of
                  Inl e \<Rightarrow> (s, Some e)
                | Inr fresh \<Rightarrow> (s\<lparr>v_df := Some fresh\<rparr>, None))))"

definition line_19 :: "('p \<Rightarrow> py_error + timestamp) \<Rightarrow> 'p stmt" where
  "line_19 other s =
     (case v_df s of
        None \<Rightarrow> (s, Some (NameError ''df''))
      | Some df \<Rightarrow>
          (case getitem df ''timestamp'' of
             Inl e \<Rightarrow> (s, Some e)
           | Inr col \<Rightarrow>
               (case to_datetime other col of
                  Inl e \<Rightarrow> (s, Some e)
                | Inr stamps \<Rightarrow> (s\<lparr>v_df := Some (setitem df ''timestamp'' stamps)\<rparr>, None))))"

definition line_20 :: "'p stmt" where
  "line_20 s =
     (case v_df s of
        None \<Rightarrow> (s, Some (NameError ''df''))
      | Some df \<Rightarrow>
          (case set_index df ''timestamp'' of
             Inl e \<Rightarrow> (s, Some e)
           | Inr indexed \<Rightarrow> (s\<lparr>v_df := Some indexed\<rparr>, None)))"

text \<open>One statement after another: the second runs only when the first raised nothing.\<close>

definition then_stmt :: "'p stmt \<Rightarrow> 'p stmt \<Rightarrow> 'p stmt" where
  "then_stmt first second s =
     (case first s of
        (s', Some e) \<Rightarrow> (s', Some e)
      | (s', None) \<Rightarrow> second s')"

definition shaping_step :: "('p \<Rightarrow> py_error + timestamp) \<Rightarrow> 'p stmt" where
  "shaping_step other = then_stmt line_17 (then_stmt line_18 (then_stmt (line_19 other) line_20))"

text \<open>What a run of the step hands on: the exception, or the table bound to \<open>df\<close>.\<close>

definition shaped :: "'p vars \<times> py_error option \<Rightarrow> py_error + 'p dataframe option" where
  "shaped r = (case snd r of Some e \<Rightarrow> Inl e | None \<Rightarrow> Inr (v_df (fst r)))"

subsection \<open>A mocked user and network\<close>

text \<open>
  The user's pick and the reply of the HTTP call are fixed; every request gets the same
  reply. \<open>ok_reply\<close> is a status 200 response whose body holds the given \<open>prices\<close>
  array and nothing else.
\<close>

definition mocked :: "nat option \<Rightarrow> py_error + 'p response \<Rightarrow> 'p env" where
  "mocked picked reply =
     \<lparr>selection = picked, http_get = (\<lambda>req. reply), other_to_datetime = (\<lambda>v. Inl ValueError)\<rparr>"

definition ok_reply :: "(int \<times> 'p) list \<Rightarrow> 'p response" where
  "ok_reply prices = \<lparr>status_code = 200, json = Inr [''prices'' \<mapsto> prices]\<rparr>"

subsection \<open>Reading the screen\<close>

text \<open>
  The tables handed to \<open>st.line_chart\<close>, the tables handed to \<open>st.write\<close>, and the
  messages of the error banners, in the order they were rendered.
\<close>

fun charted_of :: "'p element \<Rightarrow> 'p dataframe list" where
  "charted_of (Line_chart df) = [df]"
| "charted_of _ = []"

fun frame_of :: "'p written \<Rightarrow> 'p dataframe list" where
  "frame_of (W_frame df) = [df]"
| "frame_of _ = []"

fun written_of :: "'p element \<Rightarrow> 'p dataframe list" where
  "written_of (Write ws) = concat (map frame_of ws)"
| "written_of _ = []"

fun error_of :: "'p element \<Rightarrow> string list" where
  "error_of (Error msg) = [msg]"
| "error_of _ = []"

definition charts :: "'p outcome \<Rightarrow> 'p dataframe list" where
  "charts out = concat (map charted_of (screen out))"

definition tables :: "'p outcome \<Rightarrow> 'p dataframe list" where
  "tables out = concat (map written_of (screen out))"

definition errors :: "'p outcome \<Rightarrow> string list" where
  "errors out = concat (map error_of (screen out))"

subsection \<open>Reading a table by time\<close>

text \<open>
  The times of a table are the nanosecond counts of its index. Following the
  specification's words, the chronologically last \<open>n\<close> rows of a table are the last
  \<open>n\<close> once its rows are put in ascending order of time; \<open>chronologically_last_times\<close>
  gives their times.
\<close>

fun cell_time :: "'p cell \<Rightarrow> int option" where
  "cell_time (Datetime_cell t) = Some (value_ns t)"
| "cell_time (Int_cell _) = None"
| "cell_time (Value_cell _) = None"

definition index_times :: "'p dataframe \<Rightarrow> int list" where
  "index_times df = (case df_index df of RangeIndex _ _ \<Rightarrow> [] | Index _ vs \<Rightarrow> List.map_filter cell_time vs)"

definition chronologically_last_times :: "nat \<Rightarrow> 'p dataframe \<Rightarrow> int list" where
  "chronologically_last_times n df = last_rows n (sort (index_times df))"

section \<open>Properties\<close>

subsection \<open>Auxiliary facts\<close>

lemmas observe = charts_def tables_def errors_def

lemma in_bounds_iff: "in_bounds ms \<longleftrightarrow> \<bar>ms\<bar> \<le> 9223372036854"
  unfolding in_bounds_def ns_max_def by arith

lemma all_in_bounds:
  "(\<forall>row \<in> set prices. \<bar>fst row\<bar> \<le> 9223372036854) \<Longrightarrow> list_all (\<lambda>row. in_bounds (fst row)) prices"
  by (simp add: list_all_iff in_bounds_iff)

lemma length_last_rows: "length (last_rows n xs) = min n (length xs)"
  by (simp add: last_rows_def)

lemma last_rows_map: "last_rows n (map f xs) = map f (last_rows n xs)"
  by (simp add: last_rows_def drop_map)

lemma last_rows_min: "last_rows (min n (length xs)) xs = last_rows n xs"
  by (simp add: last_rows_def min_def)

lemma map_filter_cell_time:
  "List.map_filter cell_time (map (\<lambda>row. Datetime_cell (Timestamp (f row))) xs) = map f xs"
  by (induction xs) (simp_all add: List.map_filter_simps)

lemma sorted_scaled:
  "sorted (map fst prices) \<Longrightarrow> sorted (map (\<lambda>row. fst row * (1000000::int)) (prices :: (int \<times> 'p) list))"
  by (induction prices) auto

text \<open>An integer column converts cell by cell, whatever the library does with other numbers.\<close>

lemma to_datetime_int_column:
  "list_all (\<lambda>row. in_bounds (fst row)) data \<Longrightarrow>
   to_datetime other (map (\<lambda>row. Int_cell (fst row)) data)
     = Inr (map (\<lambda>row. Datetime_cell (Timestamp (fst row * 1000000))) data)"
  by (induction data) (simp_all add: to_datetime_ms_def)

lemma shape_in_bounds:
  assumes "json response = Inr dados" and "dados ''prices'' = Some prices"
    and "list_all (\<lambda>row. in_bounds (fst row)) prices"
  shows "shape other response =
    Inr \<lparr>df_index = Index ''timestamp'' (map (\<lambda>row. Datetime_cell (Timestamp (fst row * 1000000))) prices),
         df_columns = [(''price'', map (\<lambda>row. Value_cell (snd row)) prices)]\<rparr>"
  using assms
  by (simp add: shape_def DataFrame_def getitem_def setitem_def set_index_def to_datetime_int_column)

text \<open>The shaping step and the function \<open>shape\<close>, each as one case distinction.\<close>

lemma shape_cases:
  "shape other response =
     (case json response of
        Inl e \<Rightarrow> Inl e
      | Inr dados \<Rightarrow>
          (case dados ''prices'' of
             None \<Rightarrow> Inl (KeyError ''prices'')
           | Some prices \<Rightarrow>
               (case to_datetime other (map (\<lambda>row. Int_cell (fst row)) prices) of
                  Inl e \<Rightarrow> Inl e
                | Inr stamps \<Rightarrow>
                    Inr \<lparr>df_index = Index ''timestamp'' stamps,
                         df_columns = [(''price'', map (\<lambda>row. Value_cell (snd row)) prices)]\<rparr>)))"
  by (simp add: shape_def DataFrame_def getitem_def setitem_def set_index_def split: sum.splits option.splits)

lemma shaping_step_cases:
  "shaping_step other s =
     (case json (v_response s) of
        Inl e \<Rightarrow> (s, Some e)
      | Inr dados \<Rightarrow>
          (case dados ''prices'' of
             None \<Rightarrow> (s\<lparr>v_dados := Some dados\<rparr>, Some (KeyError ''prices''))
           | Some prices \<Rightarrow>
               (case to_datetime other (map (\<lambda>row. Int_cell (fst row)) prices) of
                  Inl e \<Rightarrow>
                    (s\<lparr>v_dados := Some dados,
                       v_df := Some \<lparr>df_index = RangeIndex 0 (length prices),
                                     df_columns = [(''timestamp'', map (\<lambda>row. Int_cell (fst row)) prices),
                                                   (''price'', map (\<lambda>row. Value_cell (snd row)) prices)]\<rparr>\<rparr>,
                     Some e)
                | Inr stamps \<Rightarrow>
                    (s\<lparr>v_dados := Some dados,
                       v_df := Some \<lparr>df_index = Index ''timestamp'' stamps,
                                     df_columns = [(''price'', map (\<lambda>row. Value_cell (snd row)) prices)]\<rparr>\<rparr>,
                     None))))"
  by (simp add: shaping_step_def then_stmt_def line_17_def line_18_def line_19_def line_20_def
      DataFrame_def getitem_def setitem_def set_index_def split: sum.splits option.splits)

lemma selectbox_in_options:
  "selectbox select_label currency_options picked = Inr moeda \<Longrightarrow> moeda \<in> set currency_options"
  by (auto simp: selectbox_def Let_def split: if_splits option.splits)

text \<open>The script once the select box has returned: one case per way the rest can go.\<close>

lemma run_selected:
  assumes "selectbox select_label currency_options (selection env) = Inr moeda"
  shows "run env =
    (case http_get env \<lparr>req_url = url_of moeda, req_params = params\<rparr> of
       Inl e \<Rightarrow> \<lparr>screen = [Title title_text, Selectbox select_label currency_options moeda],
                 requests_sent = [\<lparr>req_url = url_of moeda, req_params = params\<rparr>], fault = Some e\<rparr>
     | Inr response \<Rightarrow>
         if status_code response = 200
         then (case shape (other_to_datetime env) response of
                 Inl e \<Rightarrow> \<lparr>screen = [Title title_text, Selectbox select_label currency_options moeda,
                                      Write [W_str ''Status code:'', W_int (status_code response)]],
                           requests_sent = [\<lparr>req_url = url_of moeda, req_params = params\<rparr>], fault = Some e\<rparr>
               | Inr df \<Rightarrow> \<lparr>screen = [Title title_text, Selectbox select_label currency_options moeda,
                                      Write [W_str ''Status code:'', W_int (status_code response)],
                                      Line_chart df, Write [W_frame (tail df 5)]],
                            requests_sent = [\<lparr>req_url = url_of moeda, req_params = params\<rparr>], fault = None\<rparr>)
         else \<lparr>screen = [Title title_text, Selectbox select_label currency_options moeda,
                          Write [W_str ''Status code:'', W_int (status_code response)],
                          Error ''Erro ao buscar dados da API''],
               requests_sent = [\<lparr>req_url = url_of moeda, req_params = params\<rparr>], fault = None\<rparr>)"
  using assms by (simp add: run_def Let_def split: sum.splits)

subsection \<open>The request\<close>

text \<open>
  C1. Whichever of the three currency identifiers the select box returns, the script sends
  exactly one request; its URL is the base address, \<open>/coins/\<close>, that identifier and
  \<open>/market_chart\<close>, and its query parameters are exactly \<open>vs_currency = "usd"\<close> and
  \<open>days = 7\<close>.
\<close>

theorem request_for_selected_currency:
  assumes "moeda \<in> set currency_options"
    and "selectbox select_label currency_options (selection env) = Inr moeda"
  shows "requests_sent (run env) =
     [\<lparr>req_url = ''https://api.coingecko.com/api/v3/coins/'' @ moeda @ ''/market_chart'',
       req_params = [(''vs_currency'', PStr ''usd''), (''days'', PInt 7)]\<rparr>]"
  using assms(2) by (simp add: run_selected url_of_def params_def split: sum.splits)

text \<open>The three identifiers, one run each: no interaction, the second option, the third.\<close>

theorem request_for_selected_currency_witness:
  "requests_sent (run (mocked None (Inl ConnectionError) :: int env)) =
     [\<lparr>req_url = ''https://api.coingecko.com/api/v3/coins/bitcoin/market_chart'',
       req_params = [(''vs_currency'', PStr ''usd''), (''days'', PInt 7)]\<rparr>]
   \<and> requests_sent (run (mocked (Some 1) (Inl ConnectionError) :: int env)) =
     [\<lparr>req_url = ''https://api.coingecko.com/api/v3/coins/ethereum/market_chart'',
       req_params = [(''vs_currency'', PStr ''usd''), (''days'', PInt 7)]\<rparr>]
   \<and> requests_sent (run (mocked (Some 2) (Inr \<lparr>status_code = 200, json = Inl JSONDecodeError\<rparr>) :: int env)) =
     [\<lparr>req_url = ''https://api.coingecko.com/api/v3/coins/dogecoin/market_chart'',
       req_params = [(''vs_currency'', PStr ''usd''), (''days'', PInt 7)]\<rparr>]"
  using request_for_selected_currency [of "''bitcoin''" "mocked None (Inl ConnectionError) :: int env"]
    request_for_selected_currency [of "''ethereum''" "mocked (Some 1) (Inl ConnectionError) :: int env"]
    request_for_selected_currency [of "''dogecoin''"
      "mocked (Some 2) (Inr \<lparr>status_code = 200, json = Inl JSONDecodeError\<rparr>) :: int env"]
  by (simp add: mocked_def selectbox_def currency_options_def)

subsection \<open>The shaped table\<close>

text \<open>
  C2 (amended). For every status 200 response whose \<open>prices\<close> field is an array of N
  pairs with every timestamp inside the range of a nanosecond timestamp (at most
  9223372036854 milliseconds either side of the epoch), the shaping step returns a table
  with exactly N rows in the order of the input, whose index, named \<open>timestamp\<close>, holds
  each input timestamp read as milliseconds since the epoch, and whose only column is
  \<open>price\<close>; that table is the one charted.
\<close>

theorem shaped_table_in_input_order:
  assumes "selectbox select_label currency_options (selection env) = Inr moeda"
    and "http_get env \<lparr>req_url = url_of moeda, req_params = params\<rparr> = Inr response"
    and "status_code response = 200"
    and "json response = Inr dados"
    and "dados ''prices'' = Some prices"
    and "\<forall>row \<in> set prices. \<bar>fst row\<bar> \<le> 9223372036854"
  shows "\<exists>df. shape (other_to_datetime env) response = Inr df
           \<and> charts (run env) = [df]
           \<and> nrows df = length prices
           \<and> df_index df = Index ''timestamp'' (map (\<lambda>row. Datetime_cell (Timestamp (fst row * 1000000))) prices)
           \<and> df_columns df = [(''price'', map (\<lambda>row. Value_cell (snd row)) prices)]"
proof -
  have "list_all (\<lambda>row. in_bounds (fst row)) prices"
    using assms(6) by (rule all_in_bounds)
  with assms(4,5) have "shape (other_to_datetime env) response =
      Inr \<lparr>df_index = Index ''timestamp'' (map (\<lambda>row. Datetime_cell (Timestamp (fst row * 1000000))) prices),
           df_columns = [(''price'', map (\<lambda>row. Value_cell (snd row)) prices)]\<rparr>"
    by (rule shape_in_bounds)
  then show ?thesis
    using assms(1,2,3) by (simp add: run_selected observe nrows_def)
qed

text \<open>Three rows that are not in ascending order of time stay as they came.\<close>

theorem shaped_table_in_input_order_witness:
  "charts (run (mocked None (Inr (ok_reply [(3000, 30), (1000, 10), (2000, 20)])) :: int env)) =
     [\<lparr>df_index = Index ''timestamp''
          [Datetime_cell (Timestamp 3000000000), Datetime_cell (Timestamp 1000000000),
           Datetime_cell (Timestamp 2000000000)],
       df_columns = [(''price'', [Value_cell 30, Value_cell 10, Value_cell 20])]\<rparr>]"
proof -
  let ?prices = "[(3000, 30), (1000, 10), (2000, 20)] :: (int \<times> int) list"
  let ?env = "mocked None (Inr (ok_reply ?prices)) :: int env"
  have "\<exists>df. shape (other_to_datetime ?env) (ok_reply ?prices) = Inr df
           \<and> charts (run ?env) = [df]
           \<and> nrows df = length ?prices
           \<and> df_index df = Index ''timestamp'' (map (\<lambda>row. Datetime_cell (Timestamp (fst row * 1000000))) ?prices)
           \<and> df_columns df = [(''price'', map (\<lambda>row. Value_cell (snd row)) ?prices)]"
    by (rule shaped_table_in_input_order [where moeda = "''bitcoin''" and dados = "[''prices'' \<mapsto> ?prices]"])
      (simp_all add: mocked_def ok_reply_def selectbox_def currency_options_def)
  then obtain df where "charts (run ?env) = [df]"
    and "df_index df = Index ''timestamp'' (map (\<lambda>row. Datetime_cell (Timestamp (fst row * 1000000))) ?prices)"
    and "df_columns df = [(''price'', map (\<lambda>row. Value_cell (snd row)) ?prices)]"
    by blast
  then show ?thesis by (cases df) simp
qed

text \<open>
  A status 200 response with one pair whose timestamp is 10 to the power 30 ms, a count
  that no 64-bit timestamp holds: the conversion raises, and no table is charted or
  written.
\<close>

theorem shaped_table_counterexample:
  "fault (run (mocked None (Inr (ok_reply [(1000000000000000000000000000000, 1)])) :: int env))
     = Some (OutOfBoundsDatetime 1000000000000000000000000000000)
   \<and> charts (run (mocked None (Inr (ok_reply [(1000000000000000000000000000000, 1)])) :: int env)) = []
   \<and> tables (run (mocked None (Inr (ok_reply [(1000000000000000000000000000000, 1)])) :: int env)) = []"
  by (simp add: run_def mocked_def ok_reply_def selectbox_def currency_options_def shape_def
      DataFrame_def getitem_def to_datetime_ms_def in_bounds_def ns_max_def observe)

subsection \<open>The tail display\<close>

text \<open>
  C3 (amended). For every status 200 response whose \<open>prices\<close> field is an array of N
  pairs with every timestamp inside the range of a nanosecond timestamp, the tail display
  shows exactly min(5, N) rows: the last min(5, N) rows of the shaped table by position,
  that is, of the input. They are the chronologically last rows whenever the input is in
  ascending order of time.
\<close>

theorem tail_shows_last_rows_by_position:
  assumes "selectbox select_label currency_options (selection (env :: 'p env)) = Inr moeda"
    and "http_get env \<lparr>req_url = url_of moeda, req_params = params\<rparr> = Inr response"
    and "status_code response = 200"
    and "json response = Inr dados"
    and "dados ''prices'' = Some prices"
    and "\<forall>row \<in> set prices. \<bar>fst row\<bar> \<le> 9223372036854"
  shows "\<exists>df shown. shape (other_to_datetime env) response = Inr df
           \<and> tables (run env) = [shown]
           \<and> shown = tail df 5
           \<and> nrows shown = min 5 (length prices)
           \<and> df_index shown = Index ''timestamp''
                (map (\<lambda>row. Datetime_cell (Timestamp (fst row * 1000000))) (last_rows 5 prices))
           \<and> df_columns shown = [(''price'', map (\<lambda>row. Value_cell (snd row)) (last_rows 5 prices))]
           \<and> (sorted (map fst prices) \<longrightarrow>
                index_times shown = chronologically_last_times (min 5 (length prices)) df)"
proof -
  let ?df = "\<lparr>df_index = Index ''timestamp'' (map (\<lambda>row. Datetime_cell (Timestamp (fst row * 1000000))) prices),
             df_columns = [(''price'', map (\<lambda>row. Value_cell (snd row)) prices)]\<rparr> :: 'p dataframe"
  have "list_all (\<lambda>row. in_bounds (fst row)) prices"
    using assms(6) by (rule all_in_bounds)
  with assms(4,5) have shaped: "shape (other_to_datetime env) response = Inr ?df"
    by (rule shape_in_bounds)
  have shown: "tables (run env) = [tail ?df 5]"
    using assms(1,2,3) shaped by (simp add: run_selected observe)
  have rows: "nrows (tail ?df 5) = min 5 (length prices)"
    by (simp add: nrows_def tail_def length_last_rows)
  have idx: "df_index (tail ?df 5) = Index ''timestamp''
      (map (\<lambda>row. Datetime_cell (Timestamp (fst row * 1000000))) (last_rows 5 prices))"
    by (simp add: tail_def last_rows_map)
  have cols: "df_columns (tail ?df 5) = [(''price'', map (\<lambda>row. Value_cell (snd row)) (last_rows 5 prices))]"
    by (simp add: tail_def last_rows_map)
  have chrono: "index_times (tail ?df 5) = chronologically_last_times (min 5 (length prices)) ?df"
    if "sorted (map fst prices)"
  proof -
    have "sort (map (\<lambda>row. fst row * 1000000) prices) = map (\<lambda>row. fst row * 1000000) prices"
      using sorted_scaled [OF that] by (simp add: sort_key_id_if_sorted)
    moreover have "last_rows (min 5 (length prices)) (map (\<lambda>row. fst row * 1000000) prices)
        = last_rows 5 (map (\<lambda>row. fst row * 1000000) prices)"
      using last_rows_min [of 5 "map (\<lambda>row. fst row * 1000000) prices"] by simp
    ultimately show ?thesis
      by (simp add: index_times_def tail_def last_rows_map map_filter_cell_time
          chronologically_last_times_def)
  qed
  from shaped shown rows idx cols chrono show ?thesis by blast
qed

text \<open>Six rows in ascending order: the first is left out, the other five are shown.\<close>

theorem tail_shows_last_rows_by_position_witness:
  "tables (run (mocked None (Inr (ok_reply
      [(1000, 10), (2000, 20), (3000, 30), (4000, 40), (5000, 50), (6000, 60)])) :: int env)) =
     [\<lparr>df_index = Index ''timestamp''
          [Datetime_cell (Timestamp 2000000000), Datetime_cell (Timestamp 3000000000),
           Datetime_cell (Timestamp 4000000000), Datetime_cell (Timestamp 5000000000),
           Datetime_cell (Timestamp 6000000000)],
       df_columns = [(''price'', [Value_cell 20, Value_cell 30, Value_cell 40, Value_cell 50, Value_cell 60])]\<rparr>]"
proof -
  let ?prices = "[(1000, 10), (2000, 20), (3000, 30), (4000, 40), (5000, 50), (6000, 60)] :: (int \<times> int) list"
  let ?env = "mocked None (Inr (ok_reply ?prices)) :: int env"
  have "\<exists>df shown. shape (other_to_datetime ?env) (ok_reply ?prices) = Inr df
           \<and> tables (run ?env) = [shown]
           \<and> shown = tail df 5
           \<and> nrows shown = min 5 (length ?prices)
           \<and> df_index shown = Index ''timestamp''
                (map (\<lambda>row. Datetime_cell (Timestamp (fst row * 1000000))) (last_rows 5 ?prices))
           \<and> df_columns shown = [(''price'', map (\<lambda>row. Value_cell (snd row)) (last_rows 5 ?prices))]
           \<and> (sorted (map fst ?prices) \<longrightarrow>
                index_times shown = chronologically_last_times (min 5 (length ?prices)) df)"
    by (rule tail_shows_last_rows_by_position [where moeda = "''bitcoin''" and dados = "[''prices'' \<mapsto> ?prices]"])
      (simp_all add: mocked_def ok_reply_def selectbox_def currency_options_def)
  then obtain shown where "tables (run ?env) = [shown]"
    and "df_index shown = Index ''timestamp''
           (map (\<lambda>row. Datetime_cell (Timestamp (fst row * 1000000))) (last_rows 5 ?prices))"
    and "df_columns shown = [(''price'', map (\<lambda>row. Value_cell (snd row)) (last_rows 5 ?prices))]"
    by blast
  then show ?thesis by (cases shown) (simp add: last_rows_def)
qed

text \<open>
  Six rows of which the first is the latest (6000 ms): the tail display shows the rows at
  1000 to 5000 ms, while the five chronologically last rows of the table are those at 2000
  to 6000 ms. And one row at 10 to the power 30 ms: nothing is shown at all.
\<close>

theorem tail_chronological_counterexample:
  "map index_times (tables (run (mocked None (Inr (ok_reply
      [(6000, 60), (1000, 10), (2000, 20), (3000, 30), (4000, 40), (5000, 50)])) :: int env)))
     = [[1000000000, 2000000000, 3000000000, 4000000000, 5000000000]]
   \<and> map (chronologically_last_times 5) (charts (run (mocked None (Inr (ok_reply
      [(6000, 60), (1000, 10), (2000, 20), (3000, 30), (4000, 40), (5000, 50)])) :: int env)))
     = [[2000000000, 3000000000, 4000000000, 5000000000, 6000000000]]
   \<and> tables (run (mocked None (Inr (ok_reply [(1000000000000000000000000000000, 1)])) :: int env)) = []"
  by (simp add: run_def mocked_def ok_reply_def selectbox_def currency_options_def shape_def
      DataFrame_def getitem_def setitem_def set_index_def to_datetime_ms_def in_bounds_def ns_max_def
      observe tail_def last_rows_def index_times_def List.map_filter_simps
      chronologically_last_times_def)

subsection \<open>The failure branch\<close>

text \<open>
  C4. For every response whose status code is not 200, the screen is the title, the select
  box, the status code of the response and the one static error message: no chart, no
  table, and nothing of the response but its status code.
\<close>

theorem failure_shows_static_error_only:
  assumes "selectbox select_label currency_options (selection env) = Inr moeda"
    and "http_get env \<lparr>req_url = url_of moeda, req_params = params\<rparr> = Inr response"
    and "status_code response \<noteq> 200"
  shows "screen (run env) =
           [Title title_text, Selectbox select_label currency_options moeda,
            Write [W_str ''Status code:'', W_int (status_code response)],
            Error ''Erro ao buscar dados da API'']
         \<and> charts (run env) = [] \<and> tables (run env) = []
         \<and> errors (run env) = [''Erro ao buscar dados da API'']
         \<and> fault (run env) = None"
  using assms by (simp add: run_selected observe)

text \<open>A 404 whose body does hold prices, and a 500 whose body is not JSON.\<close>

theorem failure_shows_static_error_only_witness:
  "screen (run (mocked (Some 1) (Inr \<lparr>status_code = 404, json = Inr [''prices'' \<mapsto> [(1000, 10)]]\<rparr>) :: int env)) =
     [Title title_text, Selectbox select_label currency_options ''ethereum'',
      Write [W_str ''Status code:'', W_int 404], Error ''Erro ao buscar dados da API'']
   \<and> screen (run (mocked None (Inr \<lparr>status_code = 500, json = Inl JSONDecodeError\<rparr>) :: int env)) =
     [Title title_text, Selectbox select_label currency_options ''bitcoin'',
      Write [W_str ''Status code:'', W_int 500], Error ''Erro ao buscar dados da API'']"
  using failure_shows_static_error_only [where moeda = "''ethereum''"
      and env = "mocked (Some 1) (Inr \<lparr>status_code = 404, json = Inr [''prices'' \<mapsto> [(1000, 10)]]\<rparr>) :: int env"
      and response = "\<lparr>status_code = 404, json = Inr [''prices'' \<mapsto> [(1000, 10)]]\<rparr>"]
    failure_shows_static_error_only [where moeda = "''bitcoin''"
      and env = "mocked None (Inr \<lparr>status_code = 500, json = Inl JSONDecodeError\<rparr>) :: int env"
      and response = "\<lparr>status_code = 500, json = Inl JSONDecodeError\<rparr>"]
  by (simp add: mocked_def selectbox_def currency_options_def)

subsection \<open>The timestamp conversion\<close>

text \<open>
  C5 (amended). For every epoch-millisecond integer inside the range of a nanosecond
  timestamp (at most 9223372036854 milliseconds either side of the epoch), the conversion
  the shaping step applies returns a timestamp, and converting that timestamp back to
  milliseconds gives the original value exactly.
\<close>

theorem epoch_ms_round_trip:
  assumes "\<bar>ms\<bar> \<le> 9223372036854"
  shows "\<exists>t. to_datetime_ms ms = Inr t
           \<and> to_datetime other [Int_cell ms] = Inr [Datetime_cell t]
           \<and> to_epoch_ms t = ms"
  using assms by (simp add: to_datetime_ms_def in_bounds_iff to_epoch_ms_def)

theorem epoch_ms_round_trip_witness:
  "to_datetime_ms 1700000000123 = Inr (Timestamp 1700000000123000000)
   \<and> to_epoch_ms (Timestamp 1700000000123000000) = 1700000000123"
proof -
  have "\<bar>1700000000123 :: int\<bar> \<le> 9223372036854" by simp
  from epoch_ms_round_trip [OF this]
  obtain t where "to_datetime_ms 1700000000123 = Inr t" and "to_epoch_ms t = 1700000000123"
    by blast
  moreover have "to_datetime_ms 1700000000123 = Inr (Timestamp 1700000000123000000)"
    by (simp add: to_datetime_ms_def in_bounds_def ns_max_def)
  ultimately show ?thesis by simp
qed

text \<open>At 10 to the power 30 ms the conversion raises: there is no timestamp to convert back.\<close>

theorem epoch_ms_round_trip_counterexample:
  "map_sum id to_epoch_ms (to_datetime_ms 1000000000000000000000000000000) = Inl (OutOfBoundsDatetime 1000000000000000000000000000000)"
  by (simp add: to_datetime_ms_def in_bounds_def ns_max_def)

subsection \<open>The shaping step run twice\<close>

text \<open>
  C6. Running the shaping step a second time, on the variables the first run left behind,
  leaves the same variables and the same outcome as the first run: the same table bound
  to \<open>df\<close>, or the same exception. The step leaves the response, and with it the
  payload, as it found it. What it hands on does not depend on what \<open>dados\<close> and
  \<open>df\<close> held before: it is the value of \<open>shape\<close>, a function of the payload.
\<close>

theorem shaping_twice_gives_identical_tables:
  "shaping_step other (fst (shaping_step other s)) = shaping_step other s
   \<and> v_response (fst (shaping_step other s)) = v_response s
   \<and> shaped (shaping_step other (s\<lparr>v_dados := stale_dados, v_df := stale_df\<rparr>)) = shaped (shaping_step other s)
   \<and> shaped (shaping_step other s) = map_sum id Some (shape other (v_response s))"
proof -
  have link: "shaped (shaping_step other s') = map_sum id Some (shape other (v_response s'))"
    for s' :: "'a vars"
    by (simp add: shaping_step_cases shape_cases shaped_def split: sum.splits option.splits)
  have same: "v_response (fst (shaping_step other s)) = v_response s"
    by (simp add: shaping_step_cases split: sum.splits option.splits)
  have twice: "shaping_step other (fst (shaping_step other s)) = shaping_step other s"
    by (simp add: shaping_step_cases split: sum.splits option.splits)
  from twice same link [of s] link [of "s\<lparr>v_dados := stale_dados, v_df := stale_df\<rparr>"]
  show ?thesis by simp
qed

text \<open>
  The variables as an earlier run on another payload left them: \<open>df\<close> holds a table that
  is indexed already. The step binds \<open>df\<close> to the table of the present payload, and a
  second run changes nothing.
\<close>

theorem shaping_twice_gives_identical_tables_witness:
  "shaped (shaping_step (\<lambda>v. Inl ValueError)
      \<lparr>v_response = ok_reply [(2000, 20), (1000, 10)], v_dados = None,
        v_df = Some \<lparr>df_index = Index ''timestamp'' [Datetime_cell (Timestamp 7000000000)],
                      df_columns = [(''price'', [Value_cell (70 :: int)])]\<rparr>\<rparr>)
     = Inr (Some \<lparr>df_index = Index ''timestamp''
                     [Datetime_cell (Timestamp 2000000000), Datetime_cell (Timestamp 1000000000)],
                   df_columns = [(''price'', [Value_cell 20, Value_cell 10])]\<rparr>)
   \<and> shaping_step (\<lambda>v. Inl ValueError) (fst (shaping_step (\<lambda>v. Inl ValueError)
      \<lparr>v_response = ok_reply [(2000, 20), (1000, 10)], v_dados = None,
        v_df = Some \<lparr>df_index = Index ''timestamp'' [Datetime_cell (Timestamp 7000000000)],
                      df_columns = [(''price'', [Value_cell (70 :: int)])]\<rparr>\<rparr>))
     = shaping_step (\<lambda>v. Inl ValueError)
      \<lparr>v_response = ok_reply [(2000, 20), (1000, 10)], v_dados = None,
        v_df = Some \<lparr>df_index = Index ''timestamp'' [Datetime_cell (Timestamp 7000000000)],
                      df_columns = [(''price'', [Value_cell (70 :: int)])]\<rparr>\<rparr>"
proof -
  let ?s = "\<lparr>v_response = ok_reply [(2000, 20), (1000, 10)], v_dados = None,
        v_df = Some \<lparr>df_index = Index ''timestamp'' [Datetime_cell (Timestamp 7000000000)],
                      df_columns = [(''price'', [Value_cell (70 :: int)])]\<rparr>\<rparr>"
  have "shape (\<lambda>v. Inl ValueError) (v_response ?s)
      = Inr \<lparr>df_index = Index ''timestamp''
                     [Datetime_cell (Timestamp 2000000000), Datetime_cell (Timestamp 1000000000)],
                   df_columns = [(''price'', [Value_cell 20, Value_cell 10])]\<rparr>"
    by (simp add: shape_cases ok_reply_def to_datetime_ms_def in_bounds_def ns_max_def)
  with shaping_twice_gives_identical_tables [of "\<lambda>v. Inl ValueError" ?s None None]
  show ?thesis by simp
qed

subsection \<open>The status code\<close>

text \<open>
  C7. In every run in which the HTTP call returns a response, the status code of that
  response is written right after the title and the select box, before the script
  branches: it is on the screen on the success branch and on the failure branch alike.
\<close>

theorem status_code_always_displayed:
  assumes "selectbox select_label currency_options (selection env) = Inr moeda"
    and "http_get env \<lparr>req_url = url_of moeda, req_params = params\<rparr> = Inr response"
  shows "take 3 (screen (run env)) =
           [Title title_text, Selectbox select_label currency_options moeda,
            Write [W_str ''Status code:'', W_int (status_code response)]]"
  using assms by (simp add: run_selected split: sum.splits)

text \<open>A success (200) and a failure (503).\<close>

theorem status_code_always_displayed_witness:
  "take 3 (screen (run (mocked None (Inr (ok_reply [(1000, 10)])) :: int env))) =
     [Title title_text, Selectbox select_label currency_options ''bitcoin'',
      Write [W_str ''Status code:'', W_int 200]]
   \<and> take 3 (screen (run (mocked None (Inr \<lparr>status_code = 503, json = Inl JSONDecodeError\<rparr>) :: int env))) =
     [Title title_text, Selectbox select_label currency_options ''bitcoin'',
      Write [W_str ''Status code:'', W_int 503]]"
  using status_code_always_displayed [where moeda = "''bitcoin''"
      and env = "mocked None (Inr (ok_reply [(1000, 10)])) :: int env"
      and response = "ok_reply [(1000, 10)]"]
    status_code_always_displayed [where moeda = "''bitcoin''"
      and env = "mocked None (Inr \<lparr>status_code = 503, json = Inl JSONDecodeError\<rparr>) :: int env"
      and response = "\<lparr>status_code = 503, json = Inl JSONDecodeError\<rparr>"]
  by (simp add: mocked_def ok_reply_def selectbox_def currency_options_def)

subsection \<open>The select box\<close>

text \<open>
  C8. The select box offers exactly the three options \<open>bitcoin\<close>, \<open>ethereum\<close> and
  \<open>dogecoin\<close>; what it returns is one of them, namely the option at the position the
  user picked, and \<open>bitcoin\<close>, the first option, when the user has not interacted.
\<close>

theorem input_selector_closed_set:
  assumes "selectbox select_label currency_options (selection env) = Inr moeda"
  shows "moeda \<in> {''bitcoin'', ''ethereum'', ''dogecoin''}
         \<and> (selection env = None \<longrightarrow> moeda = ''bitcoin'')
         \<and> screen (run env) ! 1 = Selectbox select_label [''bitcoin'', ''ethereum'', ''dogecoin''] moeda
         \<and> selectbox select_label currency_options None = Inr ''bitcoin''
         \<and> (\<forall>i < 3. selectbox select_label currency_options (Some i) = Inr (currency_options ! i))"
proof -
  have "moeda \<in> {''bitcoin'', ''ethereum'', ''dogecoin''}"
    using selectbox_in_options [OF assms] by (simp add: currency_options_def)
  moreover have "selection env = None \<longrightarrow> moeda = ''bitcoin''"
    using assms by (auto simp: selectbox_def currency_options_def)
  moreover have "screen (run env) ! 1 = Selectbox select_label [''bitcoin'', ''ethereum'', ''dogecoin''] moeda"
    by (simp add: run_selected [OF assms] currency_options_def split: sum.splits)
  moreover have "selectbox select_label currency_options None = Inr ''bitcoin''"
    by (simp add: selectbox_def currency_options_def)
  moreover have "\<forall>i < 3. selectbox select_label currency_options (Some i) = Inr (currency_options ! i)"
    by (simp add: selectbox_def currency_options_def)
  ultimately show ?thesis by blast
qed

theorem input_selector_closed_set_witness:
  "selectbox select_label currency_options (selection (mocked None (Inl ConnectionError) :: int env)) = Inr ''bitcoin''
   \<and> screen (run (mocked None (Inl ConnectionError) :: int env)) ! 1
       = Selectbox select_label [''bitcoin'', ''ethereum'', ''dogecoin''] ''bitcoin''
   \<and> selectbox select_label currency_options (Some 2) = Inr ''dogecoin''"
proof -
  have h: "selectbox select_label currency_options (selection (mocked None (Inl ConnectionError) :: int env))
      = Inr ''bitcoin''"
    by (simp add: mocked_def selectbox_def currency_options_def)
  from input_selector_closed_set [OF h] h show ?thesis
    by (simp add: currency_options_def)
qed

subsection \<open>Faults that are not handled\<close>

text \<open>
  C9. The error banner is on the screen exactly when the HTTP call returned a response
  whose status code is not 200: nothing else is branched on. Every exception ends the run
  with no error banner, no chart and no table; an exception raised by the HTTP call ends
  it before the status code is written, and a status 200 payload with no \<open>prices\<close>
  field ends it with a KeyError after the status code is written.
\<close>

theorem only_status_is_branched_on:
  "(errors (run env) \<noteq> [] \<longleftrightarrow>
      (\<exists>moeda response. selectbox select_label currency_options (selection env) = Inr moeda
         \<and> http_get env \<lparr>req_url = url_of moeda, req_params = params\<rparr> = Inr response
         \<and> status_code response \<noteq> 200))
   \<and> (\<forall>e. fault (run env) = Some e
       \<longrightarrow> errors (run env) = [] \<and> charts (run env) = [] \<and> tables (run env) = [])
   \<and> (\<forall>moeda e. selectbox select_label currency_options (selection env) = Inr moeda
         \<and> http_get env \<lparr>req_url = url_of moeda, req_params = params\<rparr> = Inl e
       \<longrightarrow> fault (run env) = Some e
           \<and> screen (run env) = [Title title_text, Selectbox select_label currency_options moeda])
   \<and> (\<forall>moeda response dados. selectbox select_label currency_options (selection env) = Inr moeda
         \<and> http_get env \<lparr>req_url = url_of moeda, req_params = params\<rparr> = Inr response
         \<and> status_code response = 200 \<and> json response = Inr dados \<and> dados ''prices'' = None
       \<longrightarrow> fault (run env) = Some (KeyError ''prices'')
           \<and> screen (run env) = [Title title_text, Selectbox select_label currency_options moeda,
                                  Write [W_str ''Status code:'', W_int 200]])"
proof (cases "selectbox select_label currency_options (selection env)")
  case (Inl e)
  then have "run env = \<lparr>screen = [Title title_text], requests_sent = [], fault = Some e\<rparr>"
    by (simp add: run_def)
  with Inl show ?thesis by (simp add: observe)
next
  case (Inr moeda)
  show ?thesis
  proof (cases "http_get env \<lparr>req_url = url_of moeda, req_params = params\<rparr>")
    case (Inl e)
    with Inr show ?thesis by (simp add: run_selected observe)
  next
    case got: (Inr response)
    show ?thesis
    proof (cases "status_code response = 200")
      case False
      with Inr got show ?thesis by (simp add: run_selected observe)
    next
      case True
      have "errors (run env) = []"
        using Inr got True by (simp add: run_selected observe split: sum.splits)
      moreover have "charts (run env) = [] \<and> tables (run env) = []" if "fault (run env) = Some e" for e
        using Inr got True that by (simp add: run_selected observe split: sum.splits)
      moreover have "fault (run env) = Some (KeyError ''prices'')
           \<and> screen (run env) = [Title title_text, Selectbox select_label currency_options moeda,
                                  Write [W_str ''Status code:'', W_int 200]]"
        if "json response = Inr dados" and "dados ''prices'' = None" for dados
        using Inr got True that by (simp add: run_selected shape_def)
      ultimately show ?thesis using Inr got True by auto
    qed
  qed
qed

text \<open>The network is down; the payload is an empty object; the status is 404.\<close>

theorem only_status_is_branched_on_witness:
  "fault (run (mocked None (Inl ConnectionError) :: int env)) = Some ConnectionError
   \<and> errors (run (mocked None (Inl ConnectionError) :: int env)) = []
   \<and> fault (run (mocked None (Inr \<lparr>status_code = 200, json = Inr Map.empty\<rparr>) :: int env))
       = Some (KeyError ''prices'')
   \<and> errors (run (mocked None (Inr \<lparr>status_code = 200, json = Inr Map.empty\<rparr>) :: int env)) = []
   \<and> errors (run (mocked None (Inr \<lparr>status_code = 404, json = Inr Map.empty\<rparr>) :: int env)) \<noteq> []"
proof -
  let ?down = "mocked None (Inl ConnectionError) :: int env"
  let ?bare = "mocked None (Inr \<lparr>status_code = 200, json = Inr Map.empty\<rparr>) :: int env"
  let ?missing = "mocked None (Inr \<lparr>status_code = 404, json = Inr Map.empty\<rparr>) :: int env"
  have sel: "selectbox select_label currency_options None = Inr ''bitcoin''"
    by (simp add: selectbox_def currency_options_def)
  have "fault (run ?down) = Some ConnectionError \<and> errors (run ?down) = []"
    using only_status_is_branched_on [of ?down] sel by (simp add: mocked_def)
  moreover have "fault (run ?bare) = Some (KeyError ''prices'') \<and> errors (run ?bare) = []"
    using only_status_is_branched_on [of ?bare] sel by (simp add: mocked_def)
  moreover have "errors (run ?missing) \<noteq> []"
    using only_status_is_branched_on [of ?missing] sel by (simp add: mocked_def)
  ultimately show ?thesis by simp
qed

subsection \<open>An empty price series\<close>

text \<open>
  C10. For a status 200 response whose \<open>prices\<close> field is the empty array, the shaping
  step raises nothing and returns a table with the \<open>timestamp\<close> index, the \<open>price\<close>
  column and no rows; the run ends without an exception, and that zero-row table is what
  the chart and the tail display are given.
\<close>

theorem empty_prices_render_empty:
  assumes "selectbox select_label currency_options (selection (env :: 'p env)) = Inr moeda"
    and "http_get env \<lparr>req_url = url_of moeda, req_params = params\<rparr> = Inr response"
    and "status_code response = 200"
    and "json response = Inr dados"
    and "dados ''prices'' = Some []"
  shows "fault (run env) = None
         \<and> shape (other_to_datetime env) response
             = Inr \<lparr>df_index = Index ''timestamp'' [], df_columns = [(''price'', [])]\<rparr>
         \<and> charts (run env) = [\<lparr>df_index = Index ''timestamp'' [], df_columns = [(''price'', [])]\<rparr>]
         \<and> tables (run env) = [\<lparr>df_index = Index ''timestamp'' [], df_columns = [(''price'', [])]\<rparr>]
         \<and> nrows (\<lparr>df_index = Index ''timestamp'' [], df_columns = [(''price'', [])]\<rparr> :: 'p dataframe) = 0"
proof -
  have "shape (other_to_datetime env) response
      = Inr \<lparr>df_index = Index ''timestamp'' [], df_columns = [(''price'', [])]\<rparr>"
    using shape_in_bounds [OF assms(4,5), of "other_to_datetime env"] by simp
  then show ?thesis
    using assms(1,2,3) by (simp add: run_selected observe tail_def last_rows_def nrows_def)
qed

theorem empty_prices_render_empty_witness:
  "fault (run (mocked None (Inr (ok_reply [])) :: int env)) = None
   \<and> charts (run (mocked None (Inr (ok_reply [])) :: int env))
       = [\<lparr>df_index = Index ''timestamp'' [], df_columns = [(''price'', [])]\<rparr>]
   \<and> tables (run (mocked None (Inr (ok_reply [])) :: int env))
       = [\<lparr>df_index = Index ''timestamp'' [], df_columns = [(''price'', [])]\<rparr>]"
proof -
  let ?env = "mocked None (Inr (ok_reply [])) :: int env"
  have sel: "selectbox select_label currency_options (selection ?env) = Inr ''bitcoin''"
    by (simp add: mocked_def selectbox_def currency_options_def)
  show ?thesis
    using empty_prices_render_empty [OF sel, of "ok_reply []" "[''prices'' \<mapsto> []]"]
    by (simp add: mocked_def ok_reply_def)
qed

end
